theory Spec2Isabelle
  imports Main "HOL-Library.Word"
begin

section \<open>Data model\<close>

text \<open>
  The repository holds two variants of the same payment server: \<^verbatim>\<open>main.go\<close> and a second
  file (an update "para Apple Pay"). Both declare the same structs and the same two HTTP
  handlers; where the handlers differ, each variant has its own definition below, the
  second one with the suffix \<open>_v2\<close>.

  Go's \<^verbatim>\<open>int\<close> and \<^verbatim>\<open>int64\<close> are 64-bit two's complement integers: \<open>64 word\<close>, read
  with \<open>sint\<close>. A Go slice is \<^verbatim>\<open>nil\<close> or holds elements: \<open>None\<close> is the nil slice.
\<close>

type_synonym go_int = "64 word"
type_synonym int_slice = "go_int list option"

definition elems :: "int_slice \<Rightarrow> go_int list" where
  \<comment> \<open>what \<^verbatim>\<open>range\<close> visits; \<^verbatim>\<open>len\<close> is its length\<close>
  "elems s = (case s of None \<Rightarrow> [] | Some xs \<Rightarrow> xs)"

record PaymentRequest =
  RifaID :: string
  Numeros :: int_slice
  UserId :: string
  Email :: string

record Rifa =
  ID :: string
  Price :: "64 word"
  Title :: string

section \<open>encoding/json on a slice of int\<close>

subsection \<open>Marshal\<close>

text \<open>
  \<^verbatim>\<open>json.Marshal\<close> of a \<^verbatim>\<open>[]int\<close> writes \<^verbatim>\<open>null\<close> for the nil slice and otherwise the
  decimal numbers between brackets, separated by commas, with no white space.
\<close>

definition digit_char :: "nat \<Rightarrow> char" where
  "digit_char d = char_of (48 + d)"

fun show_nat :: "nat \<Rightarrow> string" where
  "show_nat n = (if n < 10 then [digit_char n] else show_nat (n div 10) @ [digit_char (n mod 10)])"

declare show_nat.simps [simp del]

definition show_int :: "int \<Rightarrow> string" where
  "show_int i = (if i < 0 then CHR ''-'' # show_nat (nat (- i)) else show_nat (nat i))"

fun join_commas :: "string list \<Rightarrow> string" where
  "join_commas [] = []"
| "join_commas [x] = x"
| "join_commas (x # y # ys) = x @ CHR '','' # join_commas (y # ys)"

definition toString :: "int_slice \<Rightarrow> string" where
  "toString v = (case v of None \<Rightarrow> ''null''
     | Some xs \<Rightarrow> CHR ''['' # join_commas (map (\<lambda>w. show_int (sint w)) xs) @ '']'')"

subsection \<open>Unmarshal\<close>

text \<open>
  \<^verbatim>\<open>json.Unmarshal(data, &numeros)\<close> first checks the whole input with the scanner of
  encoding/json (\<^verbatim>\<open>checkValid\<close>); on a syntax error it returns the error and leaves
  \<^verbatim>\<open>numeros\<close> as it was (nil). The scanner is a state machine over the bytes with a
  stack of the open arrays and objects; \<open>scan_step\<close> is that machine.
\<close>

datatype ctx = InArr | InObj

datatype mode =
    BeginValue
  | BeginValueOrEmpty
  | BeginStringOrEmpty
  | BeginString
  | ObjectKey
  | EndValue
  | InString bool
  | InStringEsc bool
  | InStringEscU nat bool
  | Neg | Num0 | Num1 | Dot | Dot0 | ExpE | ExpSign | Exp0
  | Lit string

definition is_space :: "char \<Rightarrow> bool" where
  "is_space c = (c = CHR 0x20 \<or> c = CHR 0x09 \<or> c = CHR 0x0D \<or> c = CHR 0x0A)"

definition is_digit :: "char \<Rightarrow> bool" where
  "is_digit c = (48 \<le> (of_char c :: nat) \<and> (of_char c :: nat) \<le> 57)"

definition is_hex :: "char \<Rightarrow> bool" where
  "is_hex c = (is_digit c
     \<or> (97 \<le> (of_char c :: nat) \<and> (of_char c :: nat) \<le> 102)
     \<or> (65 \<le> (of_char c :: nat) \<and> (of_char c :: nat) \<le> 70))"

definition end_value :: "ctx list \<Rightarrow> char \<Rightarrow> (mode \<times> ctx list) option" where
  "end_value st c =
     (if is_space c then Some (EndValue, st)
      else case st of
        [] \<Rightarrow> None
      | InArr # r \<Rightarrow>
          (if c = CHR '','' then Some (BeginValue, st)
           else if c = CHR '']'' then Some (EndValue, r) else None)
      | InObj # r \<Rightarrow>
          (if c = CHR '','' then Some (BeginString, st)
           else if c = CHR ''}'' then Some (EndValue, r) else None))"

definition begin_value :: "ctx list \<Rightarrow> char \<Rightarrow> (mode \<times> ctx list) option" where
  "begin_value st c =
     (if is_space c then Some (BeginValue, st)
      else if c = CHR ''{'' then Some (BeginStringOrEmpty, InObj # st)
      else if c = CHR ''['' then Some (BeginValueOrEmpty, InArr # st)
      else if c = CHR 0x22 then Some (InString False, st)
      else if c = CHR ''-'' then Some (Neg, st)
      else if c = CHR ''0'' then Some (Num0, st)
      else if c = CHR ''t'' then Some (Lit ''rue'', st)
      else if c = CHR ''f'' then Some (Lit ''alse'', st)
      else if c = CHR ''n'' then Some (Lit ''ull'', st)
      else if is_digit c then Some (Num1, st)
      else None)"

fun scan_step :: "mode \<times> ctx list \<Rightarrow> char \<Rightarrow> (mode \<times> ctx list) option" where
  "scan_step (BeginValue, st) c = begin_value st c"
| "scan_step (BeginValueOrEmpty, st) c =
     (if is_space c then Some (BeginValueOrEmpty, st)
      else if c = CHR '']'' then Some (EndValue, tl st)
      else begin_value st c)"
| "scan_step (BeginStringOrEmpty, st) c =
     (if is_space c then Some (BeginStringOrEmpty, st)
      else if c = CHR ''}'' then Some (EndValue, tl st)
      else if c = CHR 0x22 then Some (InString True, st) else None)"
| "scan_step (BeginString, st) c =
     (if is_space c then Some (BeginString, st)
      else if c = CHR 0x22 then Some (InString True, st) else None)"
| "scan_step (ObjectKey, st) c =
     (if is_space c then Some (ObjectKey, st)
      else if c = CHR '':'' then Some (BeginValue, st) else None)"
| "scan_step (EndValue, st) c = end_value st c"
| "scan_step (InString k, st) c =
     (if c = CHR 0x22 then Some (if k then ObjectKey else EndValue, st)
      else if c = CHR 0x5C then Some (InStringEsc k, st)
      else if (of_char c :: nat) < 32 then None
      else Some (InString k, st))"
| "scan_step (InStringEsc k, st) c =
     (if c \<in> set ''bfnrt/'' \<or> c = CHR 0x5C \<or> c = CHR 0x22 then Some (InString k, st)
      else if c = CHR ''u'' then Some (InStringEscU 4 k, st) else None)"
| "scan_step (InStringEscU n k, st) c =
     (if is_hex c then Some (if n \<le> 1 then InString k else InStringEscU (n - 1) k, st)
      else None)"
| "scan_step (Neg, st) c =
     (if c = CHR ''0'' then Some (Num0, st)
      else if is_digit c then Some (Num1, st) else None)"
| "scan_step (Num1, st) c =
     (if is_digit c then Some (Num1, st)
      else if c = CHR ''.'' then Some (Dot, st)
      else if c = CHR ''e'' \<or> c = CHR ''E'' then Some (ExpE, st)
      else end_value st c)"
| "scan_step (Num0, st) c =
     (if c = CHR ''.'' then Some (Dot, st)
      else if c = CHR ''e'' \<or> c = CHR ''E'' then Some (ExpE, st)
      else end_value st c)"
| "scan_step (Dot, st) c = (if is_digit c then Some (Dot0, st) else None)"
| "scan_step (Dot0, st) c =
     (if is_digit c then Some (Dot0, st)
      else if c = CHR ''e'' \<or> c = CHR ''E'' then Some (ExpE, st)
      else end_value st c)"
| "scan_step (ExpE, st) c =
     (if c = CHR ''+'' \<or> c = CHR ''-'' then Some (ExpSign, st)
      else if is_digit c then Some (Exp0, st) else None)"
| "scan_step (ExpSign, st) c = (if is_digit c then Some (Exp0, st) else None)"
| "scan_step (Exp0, st) c =
     (if is_digit c then Some (Exp0, st) else end_value st c)"
| "scan_step (Lit [], st) c = end_value st c"
| "scan_step (Lit (x # xs), st) c =
     (if c = x then Some (if xs = [] then EndValue else Lit xs, st) else None)"

fun scan :: "mode \<times> ctx list \<Rightarrow> string \<Rightarrow> (mode \<times> ctx list) option" where
  "scan s [] = Some s"
| "scan s (c # cs) = (case scan_step s c of None \<Rightarrow> None | Some s' \<Rightarrow> scan s' cs)"

definition checkValid :: "string \<Rightarrow> bool" where
  \<comment> \<open>the input is one complete JSON value, white space around it allowed\<close>
  "checkValid data = (case scan (BeginValue, []) data of
       Some (m, []) \<Rightarrow> m \<in> {EndValue, Num0, Num1, Dot0, Exp0}
     | _ \<Rightarrow> False)"

text \<open>
  On valid input the decoder looks at the first byte that is not white space. \<^verbatim>\<open>null\<close>
  sets the slice to nil. An array gives one element per item: an item that is an integer
  literal in the range of \<^verbatim>\<open>int\<close> is stored, \<^verbatim>\<open>null\<close> leaves the zero value, any other
  item (a string, a fraction, a nested value, a literal out of range) leaves the zero
  value, records an \<^verbatim>\<open>UnmarshalTypeError\<close> and decoding goes on. Any other value records
  the error and leaves the slice nil. \<open>array_items\<close> cuts the text after the opening
  bracket at the commas of the outermost level, up to the closing bracket.
\<close>

fun array_items :: "nat \<Rightarrow> bool \<Rightarrow> bool \<Rightarrow> string \<Rightarrow> string \<Rightarrow> string list" where
  "array_items depth in_str esc cur [] = [cur]"
| "array_items depth in_str esc cur (c # cs) =
     (if in_str then
        (if esc then array_items depth True False (cur @ [c]) cs
         else if c = CHR 0x5C then array_items depth True True (cur @ [c]) cs
         else if c = CHR 0x22 then array_items depth False False (cur @ [c]) cs
         else array_items depth True False (cur @ [c]) cs)
      else if c = CHR 0x22 then array_items depth True False (cur @ [c]) cs
      else if c = CHR ''['' \<or> c = CHR ''{'' then array_items (Suc depth) False False (cur @ [c]) cs
      else if c = CHR '']'' \<or> c = CHR ''}'' then
        (case depth of 0 \<Rightarrow> [cur]
         | Suc d \<Rightarrow> array_items d False False (cur @ [c]) cs)
      else if c = CHR '','' \<and> depth = 0 then cur # array_items 0 False False [] cs
      else array_items depth False False (cur @ [c]) cs)"

definition digit_val :: "char \<Rightarrow> nat" where
  "digit_val c = of_char c - 48"

definition parse_nat :: "string \<Rightarrow> nat" where
  "parse_nat ds = foldl (\<lambda>a c. 10 * a + digit_val c) 0 ds"

definition int_literal :: "string \<Rightarrow> int option" where
  "int_literal t = (case t of
       [] \<Rightarrow> None
     | c # r \<Rightarrow>
         if c = CHR ''-'' then
           (if r \<noteq> [] \<and> list_all is_digit r then Some (- int (parse_nat r)) else None)
         else if list_all is_digit t then Some (int (parse_nat t)) else None)"

definition trim :: "string \<Rightarrow> string" where
  "trim t = rev (dropWhile is_space (rev (dropWhile is_space t)))"

definition store_int :: "string \<Rightarrow> bool \<times> go_int" where
  \<comment> \<open>one array item into an \<^verbatim>\<open>int\<close>: the flag says that an error was recorded\<close>
  "store_int item =
     (let t = trim item in
      if t = ''null'' then (False, 0)
      else case int_literal t of
          None \<Rightarrow> (True, 0)
        | Some v \<Rightarrow> if - (2 ^ 63) \<le> v \<and> v < 2 ^ 63 then (False, word_of_int v) else (True, 0))"

definition Unmarshal_ints :: "string \<Rightarrow> bool \<times> int_slice" where
  \<comment> \<open>\<^verbatim>\<open>json.Unmarshal(data, &numeros)\<close> with \<^verbatim>\<open>numeros\<close> nil before: whether an error is
      returned, and \<^verbatim>\<open>numeros\<close> afterwards\<close>
  "Unmarshal_ints data =
     (if \<not> checkValid data then (True, None)
      else case dropWhile is_space data of
          [] \<Rightarrow> (True, None)
        | c # r \<Rightarrow>
            if c = CHR ''['' then
              (case dropWhile is_space r of
                 [] \<Rightarrow> (True, None)
               | d # _ \<Rightarrow>
                   if d = CHR '']'' then (False, Some [])
                   else let rs = map store_int (array_items 0 False False [] r)
                        in (list_ex fst rs, Some (map snd rs)))
            else if c = CHR ''n'' then (False, None)
            else (True, None))"

section \<open>The world outside the server\<close>

text \<open>
  The server keeps no state. It talks to the store (Supabase over HTTP), to the payment
  provider (the Stripe library) and to the mail provider (Resend). What they answer is
  not in the repository, so it is a parameter of the model: the record \<open>world\<close>. The
  rows of the table \<^verbatim>\<open>tikect\<close> are the state of the store.
\<close>

record ticket =
  rifa_id :: string
  number :: go_int
  profile_id :: string

datatype 'a reply = NoReply | Reply nat 'a
  \<comment> \<open>\<^verbatim>\<open>http.DefaultClient.Do\<close>: a transport error, or a status code with the body\<close>

record Event =
  Type :: string
  Raw :: string

record PaymentIntentParams =
  Amount :: "64 word"
  Currency :: string
  AutomaticPaymentMethods :: "bool option"
  Metadata :: "string \<rightharpoonup> string"

record SendEmailRequest =
  To :: "string list"
  Subject :: string
  HtmlArgs :: "string \<times> string"

record world =
  STRIPE_WEBHOOK_SECRET :: string
  ConstructEvent :: "string \<Rightarrow> string \<Rightarrow> string \<Rightarrow> Event option"
  Unmarshal_pi :: "string \<Rightarrow> bool \<times> (string \<rightharpoonup> string)"
  paymentintent_New :: "PaymentIntentParams \<Rightarrow> string option"
  get_rifa :: "string \<Rightarrow> Rifa list reply"
  get_tikect :: "ticket list \<Rightarrow> string \<Rightarrow> go_int list \<Rightarrow> ticket list reply"
  post_tikect :: "ticket list \<Rightarrow> ticket list \<Rightarrow> string reply \<times> ticket list"
  Emails_Send :: "SendEmailRequest \<Rightarrow> bool"

text \<open>
  \<^item> \<open>ConstructEvent payload signature secret\<close> is \<^verbatim>\<open>webhook.ConstructEvent\<close>: \<open>None\<close> when
    the library returns an error.
  \<^item> \<open>Unmarshal_pi raw\<close> is \<^verbatim>\<open>json.Unmarshal(event.Data.Raw, &pi)\<close>: whether it returns
    an error, and \<^verbatim>\<open>pi.Metadata\<close> afterwards.
  \<^item> \<open>paymentintent_New params\<close> gives the client secret of the new intent, \<open>None\<close> on error.
  \<^item> \<open>get_rifa id\<close> answers \<^verbatim>\<open>GET rifa?id=eq.<id>\<close>, the body decoded into \<^verbatim>\<open>[]Rifa\<close>.
  \<^item> \<open>get_tikect rows id ns\<close> answers \<^verbatim>\<open>GET tikect?rifa_id=eq.<id>&number=in.(<ns>)\<close>, the
    body decoded into a slice (empty when the body is not an array).
  \<^item> \<open>post_tikect rows batch\<close> answers \<^verbatim>\<open>POST tikect\<close> with the batch as body, and gives
    the rows of the table afterwards. The empty batch stands for the body \<^verbatim>\<open>null\<close>, which
    is what the nil payload marshals to.
  \<^item> \<open>Emails_Send req\<close> is \<open>True\<close> when \<^verbatim>\<open>client.Emails.Send\<close> returns no error.
\<close>

datatype call =
    GetRifa string
  | GetTikect string "go_int list"
  | NewIntent PaymentIntentParams
  | PostTikect "ticket list"

datatype logline =
    LogJSON | LogRifa string | LogStripe | LogIntent string
  | LogBody | LogFirma | LogParse | LogPago string | LogDB string
  | LogCorreoError | LogCorreoEnviado string

datatype body = NoBody | Text string | ClientSecret string

record outcome =
  written :: "nat option"
  sent :: body
  panicked :: bool
  calls :: "call list"
  logs :: "logline list"
  tikect :: "ticket list"
  spawned :: "SendEmailRequest list"
  spawned_logs :: "logline list"

text \<open>
  An \<open>outcome\<close> is what one run of a handler does: \<open>written\<close> is the status given to
  \<^verbatim>\<open>WriteHeader\<close> or \<^verbatim>\<open>http.Error\<close> (\<open>None\<close> when the handler never sets one), \<open>sent\<close> the
  body, \<open>calls\<close> the requests made to the store and the provider in order, \<open>tikect\<close> the
  rows of the table afterwards, \<open>spawned\<close> the mails handed to the goroutine and
  \<open>spawned_logs\<close> what the goroutine logs. net/http answers 200 when the handler returns
  without setting a status.
\<close>

definition status_of :: "outcome \<Rightarrow> nat" where
  "status_of r = (case written r of None \<Rightarrow> 200 | Some c \<Rightarrow> c)"

definition quiet :: "ticket list \<Rightarrow> outcome" where
  "quiet rows = \<lparr>written = None, sent = NoBody, panicked = False, calls = [], logs = [],
     tikect = rows, spawned = [], spawned_logs = []\<rparr>"

definition lookup :: "(string \<rightharpoonup> string) \<Rightarrow> string \<Rightarrow> string" where
  \<comment> \<open>indexing a Go map: the zero value for a missing key\<close>
  "lookup m k = (case m k of None \<Rightarrow> [] | Some v \<Rightarrow> v)"

section \<open>Support functions\<close>

datatype error = Transport | ErrorSupabase | E404 | Taken | ErrorRegistro | StatusError nat string

definition getRifa :: "world \<Rightarrow> string \<Rightarrow> error + Rifa" where
  "getRifa w ident =
     (case get_rifa w ident of
        NoReply \<Rightarrow> Inl ErrorSupabase
      | Reply code data \<Rightarrow>
          if code \<noteq> 200 then Inl ErrorSupabase
          else (case data of [] \<Rightarrow> Inl E404 | r # _ \<Rightarrow> Inr r))"

datatype checked = NilDereference | Failed error | Passed

definition validarNumeros :: "world \<Rightarrow> ticket list \<Rightarrow> string \<Rightarrow> int_slice \<Rightarrow> checked" where
  \<comment> \<open>only in \<^verbatim>\<open>main.go\<close>. The error of \<^verbatim>\<open>Do\<close> is dropped and \<^verbatim>\<open>resp.Body\<close> is read at once:
      without a reply that is a nil dereference. The status code is not looked at.\<close>
  "validarNumeros w rows rifaID numeros =
     (case get_tikect w rows rifaID (elems numeros) of
        NoReply \<Rightarrow> NilDereference
      | Reply code count \<Rightarrow> if length count > 0 then Failed Taken else Passed)"

definition payload_of :: "string \<Rightarrow> int_slice \<Rightarrow> string \<Rightarrow> ticket list" where
  \<comment> \<open>the loop of \<^verbatim>\<open>registrarTickets\<close>: one row for each element, in order\<close>
  "payload_of rifaID numeros userID =
     map (\<lambda>n. \<lparr>rifa_id = rifaID, number = n, profile_id = userID\<rparr>) (elems numeros)"

definition registrarTickets ::
  "world \<Rightarrow> ticket list \<Rightarrow> string \<Rightarrow> int_slice \<Rightarrow> string \<Rightarrow> error option \<times> ticket list" where
  "registrarTickets w rows rifaID numeros userID =
     (case post_tikect w rows (payload_of rifaID numeros userID) of
        (NoReply, rows') \<Rightarrow> (Some Transport, rows')
      | (Reply code b, rows') \<Rightarrow>
          (if code \<ge> 400 then Some ErrorRegistro else None, rows'))"

definition registrarTickets_v2 ::
  "world \<Rightarrow> ticket list \<Rightarrow> string \<Rightarrow> int_slice \<Rightarrow> string \<Rightarrow> error option \<times> ticket list" where
  "registrarTickets_v2 w rows rifaID numeros userID =
     (case post_tikect w rows (payload_of rifaID numeros userID) of
        (NoReply, rows') \<Rightarrow> (Some Transport, rows')
      | (Reply code b, rows') \<Rightarrow>
          (if code \<ge> 400 then Some (StatusError code b) else None, rows'))"

fun join_with :: "string \<Rightarrow> string list \<Rightarrow> string" where
  "join_with sep [] = []"
| "join_with sep [x] = x"
| "join_with sep (x # y # ys) = x @ sep @ join_with sep (y # ys)"

definition numsStr :: "int_slice \<Rightarrow> string" where
  \<comment> \<open>\<^verbatim>\<open>fmt.Sprint\<close> of the slice, its fields joined by a comma and a space, brackets trimmed\<close>
  "numsStr numeros = join_with '', '' (map (\<lambda>n. show_int (sint n)) (elems numeros))"

definition u_acute :: string where "u_acute = [CHR 0xC3, CHR 0xBA]"
definition a_acute :: string where "a_acute = [CHR 0xC3, CHR 0xA1]"

definition enviarCorreoConfirmacion :: "string \<Rightarrow> string \<Rightarrow> int_slice \<Rightarrow> SendEmailRequest" where
  \<comment> \<open>the request given to \<^verbatim>\<open>client.Emails.Send\<close>\<close>
  "enviarCorreoConfirmacion destinatario rifaNombre numeros =
     \<lparr>To = [destinatario],
      Subject = ''Tus n'' @ u_acute @ ''meros para '' @ rifaNombre,
      HtmlArgs = (rifaNombre, numsStr numeros)\<rparr>"

definition enviarCorreoConfirmacion_v2 :: "string \<Rightarrow> string \<Rightarrow> int_slice \<Rightarrow> SendEmailRequest" where
  "enviarCorreoConfirmacion_v2 destinatario rifaNombre numeros =
     \<lparr>To = [destinatario],
      Subject = ''Tus n'' @ u_acute @ ''meros confirmados'',
      HtmlArgs = (rifaNombre, numsStr numeros)\<rparr>"

section \<open>Creating the payment intent\<close>

definition intent_params :: "Rifa \<Rightarrow> PaymentRequest \<Rightarrow> bool option \<Rightarrow> PaymentIntentParams" where
  "intent_params rifa req auto =
     \<lparr>Amount = (Price rifa * of_nat (length (elems (Numeros req)))) * 100,
      Currency = ''usd'',
      AutomaticPaymentMethods = auto,
      Metadata = [''rifa_id'' \<mapsto> RifaID req, ''rifa_title'' \<mapsto> Title rifa,
                  ''user_id'' \<mapsto> UserId req, ''user_email'' \<mapsto> Email req,
                  ''numeros'' \<mapsto> toString (Numeros req)]\<rparr>"

definition issue :: "world \<Rightarrow> outcome \<Rightarrow> PaymentIntentParams \<Rightarrow> logline list \<Rightarrow> outcome" where
  \<comment> \<open>the end of both variants: \<^verbatim>\<open>paymentintent.New\<close>, then 500 or the client secret\<close>
  "issue w r params ok_log =
     (case paymentintent_New w params of
        None \<Rightarrow> r\<lparr>written := Some 500, sent := Text ''Error Stripe'',
                   calls := calls r @ [NewIntent params], logs := logs r @ [LogStripe]\<rparr>
      | Some secret \<Rightarrow> r\<lparr>sent := ClientSecret secret,
                   calls := calls r @ [NewIntent params], logs := logs r @ ok_log\<rparr>)"

definition CreatePaymentIntent :: "world \<Rightarrow> ticket list \<Rightarrow> PaymentRequest option \<Rightarrow> outcome" where
  \<comment> \<open>\<^verbatim>\<open>main.go\<close>. The third argument is the request body decoded, \<open>None\<close> when
      \<^verbatim>\<open>Decode\<close> fails.\<close>
  "CreatePaymentIntent w rows decoded =
     (case decoded of
        None \<Rightarrow> (quiet rows)\<lparr>written := Some 400, sent := Text (''JSON inv'' @ a_acute @ ''lido'')\<rparr>
      | Some req \<Rightarrow>
         (case getRifa w (RifaID req) of
            Inl e \<Rightarrow> (quiet rows)\<lparr>written := Some 404, sent := Text ''Rifa no encontrada'',
                        calls := [GetRifa (RifaID req)]\<rparr>
          | Inr rifa \<Rightarrow>
             (case validarNumeros w rows (RifaID req) (Numeros req) of
                NilDereference \<Rightarrow> (quiet rows)\<lparr>panicked := True,
                    calls := [GetRifa (RifaID req), GetTikect (RifaID req) (elems (Numeros req))]\<rparr>
              | Failed e \<Rightarrow> (quiet rows)\<lparr>written := Some 409,
                    sent := Text (''algunos n'' @ u_acute @ ''meros ya no est'' @ a_acute @ ''n disponibles''),
                    calls := [GetRifa (RifaID req), GetTikect (RifaID req) (elems (Numeros req))]\<rparr>
              | Passed \<Rightarrow>
                  issue w ((quiet rows)\<lparr>calls :=
                      [GetRifa (RifaID req), GetTikect (RifaID req) (elems (Numeros req))]\<rparr>)
                    (intent_params rifa req None) [])))"

definition CreatePaymentIntent_v2 :: "world \<Rightarrow> ticket list \<Rightarrow> PaymentRequest option \<Rightarrow> outcome" where
  \<comment> \<open>the second variant: no call to \<^verbatim>\<open>validarNumeros\<close>, which this file does not define\<close>
  "CreatePaymentIntent_v2 w rows decoded =
     (case decoded of
        None \<Rightarrow> (quiet rows)\<lparr>written := Some 400, sent := Text (''JSON inv'' @ a_acute @ ''lido''),
                    logs := [LogJSON]\<rparr>
      | Some req \<Rightarrow>
         (case getRifa w (RifaID req) of
            Inl e \<Rightarrow> (quiet rows)\<lparr>written := Some 404, sent := Text ''Rifa no encontrada'',
                        calls := [GetRifa (RifaID req)], logs := [LogRifa (RifaID req)]\<rparr>
          | Inr rifa \<Rightarrow>
              issue w ((quiet rows)\<lparr>calls := [GetRifa (RifaID req)]\<rparr>)
                (intent_params rifa req (Some True)) [LogIntent (Email req)]))"

section \<open>The webhook\<close>

definition MaxBodyBytes :: nat where "MaxBodyBytes = 65536"

definition HandleStripeWebhook :: "world \<Rightarrow> ticket list \<Rightarrow> string \<Rightarrow> string \<Rightarrow> outcome" where
  \<comment> \<open>\<^verbatim>\<open>main.go\<close>; the arguments after the rows are the request body and the header
      \<^verbatim>\<open>Stripe-Signature\<close>. After a failed \<^verbatim>\<open>registrarTickets\<close> the handler logs and
      returns: no status is written.\<close>
  "HandleStripeWebhook w rows payload signature =
     (if length payload > MaxBodyBytes then (quiet rows)\<lparr>written := Some 400\<rparr>
      else case ConstructEvent w payload signature (STRIPE_WEBHOOK_SECRET w) of
        None \<Rightarrow> (quiet rows)\<lparr>written := Some 400, logs := [LogFirma]\<rparr>
      | Some event \<Rightarrow>
          if Type event = ''payment_intent.succeeded'' then
            (let md = snd (Unmarshal_pi w (Raw event));
                 rifaID = lookup md ''rifa_id'';
                 rifaTitle = lookup md ''rifa_title'';
                 userID = lookup md ''user_id'';
                 userEmail = lookup md ''user_email'';
                 numeros = snd (Unmarshal_ints (lookup md ''numeros''))
             in case registrarTickets w rows rifaID numeros userID of
                 (Some e, rows') \<Rightarrow> (quiet rows')\<lparr>
                     calls := [PostTikect (payload_of rifaID numeros userID)],
                     logs := [LogPago userEmail, LogDB rifaID]\<rparr>
               | (None, rows') \<Rightarrow>
                   (let mail = enviarCorreoConfirmacion userEmail rifaTitle numeros
                    in (quiet rows')\<lparr>written := Some 200,
                     calls := [PostTikect (payload_of rifaID numeros userID)],
                     logs := [LogPago userEmail],
                     spawned := [mail],
                     spawned_logs := (if Emails_Send w mail then [LogCorreoEnviado userEmail]
                                      else [LogCorreoError])\<rparr>))
          else (quiet rows)\<lparr>written := Some 200\<rparr>)"

definition HandleStripeWebhook_v2 :: "world \<Rightarrow> ticket list \<Rightarrow> string \<Rightarrow> string \<Rightarrow> outcome" where
  \<comment> \<open>the second variant: 400 when the payment intent does not parse, 500 after a failed
      \<^verbatim>\<open>registrarTickets\<close>\<close>
  "HandleStripeWebhook_v2 w rows payload signature =
     (if length payload > MaxBodyBytes then (quiet rows)\<lparr>written := Some 400, logs := [LogBody]\<rparr>
      else case ConstructEvent w payload signature (STRIPE_WEBHOOK_SECRET w) of
        None \<Rightarrow> (quiet rows)\<lparr>written := Some 400, logs := [LogFirma]\<rparr>
      | Some event \<Rightarrow>
          if Type event = ''payment_intent.succeeded'' then
            (if fst (Unmarshal_pi w (Raw event))
             then (quiet rows)\<lparr>written := Some 400, logs := [LogParse]\<rparr>
             else
              (let md = snd (Unmarshal_pi w (Raw event));
                   rifaID = lookup md ''rifa_id'';
                   rifaTitle = lookup md ''rifa_title'';
                   userID = lookup md ''user_id'';
                   userEmail = lookup md ''user_email'';
                   numeros = snd (Unmarshal_ints (lookup md ''numeros''))
               in case registrarTickets_v2 w rows rifaID numeros userID of
                   (Some e, rows') \<Rightarrow> (quiet rows')\<lparr>written := Some 500,
                       calls := [PostTikect (payload_of rifaID numeros userID)],
                       logs := [LogDB rifaID]\<rparr>
                 | (None, rows') \<Rightarrow>
                     (let mail = enviarCorreoConfirmacion_v2 userEmail rifaTitle numeros
                      in (quiet rows')\<lparr>written := Some 200,
                       calls := [PostTikect (payload_of rifaID numeros userID)],
                       spawned := [mail],
                       spawned_logs := (if Emails_Send w mail then [] else [LogCorreoError])\<rparr>)))
          else (quiet rows)\<lparr>written := Some 200\<rparr>)"

section \<open>A store that keeps numbers unique\<close>

text \<open>
  Modelled from the spec: the store is not part of the repository. The specification
  takes it to answer the availability query with the existing tickets of the item whose
  number is requested, and to enforce a uniqueness constraint on (item, number) at insert
  time. \<open>unique_select\<close> and \<open>unique_insert\<close> are such a store: a batch is one
  statement, so a batch that repeats a pair or brings a pair already in the table is
  refused as a whole with 409 and changes nothing; any other batch is added and answered
  with 201. \<open>plain_insert\<close> is a table without the constraint.
\<close>

definition pair_of :: "ticket \<Rightarrow> string \<times> go_int" where
  "pair_of t = (rifa_id t, number t)"

definition unique_select :: "ticket list \<Rightarrow> string \<Rightarrow> go_int list \<Rightarrow> ticket list reply" where
  "unique_select rows ident ns =
     Reply 200 (filter (\<lambda>t. rifa_id t = ident \<and> number t \<in> set ns) rows)"

definition unique_insert :: "ticket list \<Rightarrow> ticket list \<Rightarrow> string reply \<times> ticket list" where
  "unique_insert rows batch =
     (if distinct (map pair_of batch) \<and> set (map pair_of batch) \<inter> set (map pair_of rows) = {}
      then (Reply 201 [], rows @ batch)
      else (Reply 409 ''duplicate key value violates unique constraint'', rows))"

definition plain_insert :: "ticket list \<Rightarrow> ticket list \<Rightarrow> string reply \<times> ticket list" where
  "plain_insert rows batch = (Reply 201 [], rows @ batch)"

definition down_insert :: "ticket list \<Rightarrow> ticket list \<Rightarrow> string reply \<times> ticket list" where
  \<comment> \<open>the store out of service\<close>
  "down_insert rows batch = (Reply 503 ''service unavailable'', rows)"

section \<open>A small world for examples\<close>

definition example_ConstructEvent :: "string \<Rightarrow> string \<Rightarrow> string \<Rightarrow> Event option" where
  \<comment> \<open>a stand-in for the signature check: the signature is the secret followed by the body\<close>
  "example_ConstructEvent payload signature secret =
     (if signature = secret @ payload
      then Some \<lparr>Type = ''payment_intent.succeeded'', Raw = payload\<rparr> else None)"

definition example_world ::
  "(ticket list \<Rightarrow> ticket list \<Rightarrow> string reply \<times> ticket list) \<Rightarrow> world" where
  \<comment> \<open>every item costs 500; the body of an event is taken as its \<^verbatim>\<open>numeros\<close> field\<close>
  "example_world ins =
     \<lparr>STRIPE_WEBHOOK_SECRET = ''k'',
      ConstructEvent = example_ConstructEvent,
      Unmarshal_pi = (\<lambda>raw. (False,
         [''rifa_id'' \<mapsto> ''R1'', ''rifa_title'' \<mapsto> ''Spring Raffle'', ''user_id'' \<mapsto> ''u1'',
          ''user_email'' \<mapsto> ''u1@x.com'', ''numeros'' \<mapsto> raw])),
      paymentintent_New = (\<lambda>p. Some ''cs_1''),
      get_rifa = (\<lambda>i. Reply 200 [\<lparr>ID = i, Price = 500, Title = ''Spring Raffle''\<rparr>]),
      get_tikect = unique_select,
      post_tikect = ins,
      Emails_Send = (\<lambda>m. True)\<rparr>"

definition example_request :: "go_int list \<Rightarrow> PaymentRequest" where
  "example_request ns = \<lparr>RifaID = ''R1'', Numeros = Some ns, UserId = ''u1'', Email = ''u1@x.com''\<rparr>"

fun intents :: "call list \<Rightarrow> PaymentIntentParams list" where
  "intents [] = []"
| "intents (NewIntent p # cs) = p # intents cs"
| "intents (c # cs) = intents cs"

fun inserts :: "call list \<Rightarrow> ticket list list" where
  "inserts [] = []"
| "inserts (PostTikect b # cs) = b # inserts cs"
| "inserts (c # cs) = inserts cs"

text \<open>
  Names for what the handlers compute from a verified event: the rows they post and the
  result of \<^verbatim>\<open>registrarTickets\<close> on them.
\<close>

definition numeros_of :: "world \<Rightarrow> Event \<Rightarrow> int_slice" where
  "numeros_of w ev = snd (Unmarshal_ints (lookup (snd (Unmarshal_pi w (Raw ev))) ''numeros''))"

definition batch_of :: "world \<Rightarrow> Event \<Rightarrow> ticket list" where
  "batch_of w ev = payload_of (lookup (snd (Unmarshal_pi w (Raw ev))) ''rifa_id'')
     (numeros_of w ev) (lookup (snd (Unmarshal_pi w (Raw ev))) ''user_id'')"

definition commit :: "world \<Rightarrow> ticket list \<Rightarrow> Event \<Rightarrow> error option \<times> ticket list" where
  "commit w rows ev = registrarTickets w rows (lookup (snd (Unmarshal_pi w (Raw ev))) ''rifa_id'')
     (numeros_of w ev) (lookup (snd (Unmarshal_pi w (Raw ev))) ''user_id'')"

definition commit_v2 :: "world \<Rightarrow> ticket list \<Rightarrow> Event \<Rightarrow> error option \<times> ticket list" where
  "commit_v2 w rows ev = registrarTickets_v2 w rows (lookup (snd (Unmarshal_pi w (Raw ev))) ''rifa_id'')
     (numeros_of w ev) (lookup (snd (Unmarshal_pi w (Raw ev))) ''user_id'')"

definition verified :: "world \<Rightarrow> string \<Rightarrow> string \<Rightarrow> Event \<Rightarrow> bool" where
  \<comment> \<open>the request passes the size cap and the signature check and carries \<open>ev\<close>, a
      "payment succeeded" event whose payment intent parses\<close>
  "verified w payload signature ev =
     (length payload \<le> MaxBodyBytes \<and>
      ConstructEvent w payload signature (STRIPE_WEBHOOK_SECRET w) = Some ev \<and>
      Type ev = ''payment_intent.succeeded'' \<and> \<not> fst (Unmarshal_pi w (Raw ev)))"

text \<open>
  A handler makes at most one request that writes to the store, the batch insert, and the
  store handles each request as a whole. However two deliveries overlap in time, the table
  therefore ends as after the two inserts in some order; a list of deliveries, taken in
  the order of their inserts, stands for any such run. The flag of a delivery says which
  variant of the handler receives it.
\<close>

definition deliver :: "world \<Rightarrow> ticket list \<Rightarrow> bool \<times> string \<times> string \<Rightarrow> ticket list" where
  "deliver w rows d = (case d of (second, payload, signature) \<Rightarrow>
     if second then tikect (HandleStripeWebhook_v2 w rows payload signature)
     else tikect (HandleStripeWebhook w rows payload signature))"

definition contest_world ::
  "(ticket list \<Rightarrow> ticket list \<Rightarrow> string reply \<times> ticket list) \<Rightarrow> world" where
  \<comment> \<open>every event buys number 7 of item X; the body of the event names the buyer\<close>
  "contest_world ins = (example_world ins)\<lparr>Unmarshal_pi := (\<lambda>raw. (False,
         [''rifa_id'' \<mapsto> ''X'', ''rifa_title'' \<mapsto> ''Spring Raffle'', ''user_id'' \<mapsto> raw,
          ''user_email'' \<mapsto> raw @ ''@x.com'', ''numeros'' \<mapsto> ''[7]'']))\<rparr>"

section \<open>The amount of the intent\<close>

lemma intents_append: "intents (xs @ ys) = intents xs @ intents ys"
  by (induction xs rule: intents.induct) simp_all

lemma intents_issue:
  "intents (calls (issue w r params l)) = intents (calls r) @ [params]"
  by (simp add: issue_def intents_append split: option.splits)

lemma intents_CreatePaymentIntent:
  "intents (calls (CreatePaymentIntent w rows (Some req))) = ps \<Longrightarrow> p \<in> set ps \<Longrightarrow>
   \<exists>rifa. getRifa w (RifaID req) = Inr rifa \<and> p = intent_params rifa req None"
  by (auto simp: CreatePaymentIntent_def quiet_def intents_issue
           split: sum.splits checked.splits)

lemma intents_CreatePaymentIntent_v2:
  "intents (calls (CreatePaymentIntent_v2 w rows (Some req))) = ps \<Longrightarrow> p \<in> set ps \<Longrightarrow>
   \<exists>rifa. getRifa w (RifaID req) = Inr rifa \<and> p = intent_params rifa req (Some True)"
  by (auto simp: CreatePaymentIntent_v2_def quiet_def intents_issue split: sum.splits)

lemma no_intent_without_request:
  "intents (calls (CreatePaymentIntent w rows None)) = []"
  "intents (calls (CreatePaymentIntent_v2 w rows None)) = []"
  by (simp_all add: CreatePaymentIntent_def CreatePaymentIntent_v2_def quiet_def)

lemma getRifa_example:
  "getRifa (example_world ins) i = Inr \<lparr>ID = i, Price = 500, Title = ''Spring Raffle''\<rparr>"
  by (simp add: getRifa_def example_world_def)

lemma validarNumeros_example:
  "validarNumeros (example_world ins) [] ident ns = Passed"
  by (simp add: validarNumeros_def example_world_def unique_select_def)

lemma example_create:
  "intents (calls (CreatePaymentIntent (example_world ins) [] (Some (example_request ns))))
     = [intent_params \<lparr>ID = ''R1'', Price = 500, Title = ''Spring Raffle''\<rparr> (example_request ns) None]"
  by (simp add: CreatePaymentIntent_def getRifa_example validarNumeros_example quiet_def
      intents_issue example_request_def)

lemma example_create_v2:
  "intents (calls (CreatePaymentIntent_v2 (example_world ins) rows (Some (example_request ns))))
     = [intent_params \<lparr>ID = ''R1'', Price = 500, Title = ''Spring Raffle''\<rparr> (example_request ns)
          (Some True)]"
  by (simp add: CreatePaymentIntent_v2_def getRifa_example quiet_def
      intents_issue example_request_def)

text \<open>
  C1 (amended). Whenever either variant of the create-intent handler asks the provider
  for an intent, the amount is the price of the item times the count of requested numbers
  times 100, in 64-bit arithmetic: the price is taken to be in whole currency units and is
  converted to the minor unit. Price 500 with 3 numbers gives 150000.
\<close>

theorem amount_is_price_times_count_times_100:
  "(p \<in> set (intents (calls (CreatePaymentIntent w rows (Some req)))) \<or>
    p \<in> set (intents (calls (CreatePaymentIntent_v2 w rows (Some req))))) \<Longrightarrow>
   \<exists>rifa. getRifa w (RifaID req) = Inr rifa \<and>
     Amount p = Price rifa * of_nat (length (elems (Numeros req))) * 100"
proof (erule disjE)
  assume "p \<in> set (intents (calls (CreatePaymentIntent w rows (Some req))))"
  from intents_CreatePaymentIntent [OF refl this]
  show ?thesis by (auto simp: intent_params_def)
next
  assume "p \<in> set (intents (calls (CreatePaymentIntent_v2 w rows (Some req))))"
  from intents_CreatePaymentIntent_v2 [OF refl this]
  show ?thesis by (auto simp: intent_params_def)
qed

theorem amount_is_price_times_count_times_100_witness:
  "getRifa (example_world plain_insert) (RifaID (example_request [1, 2, 3]))
     = Inr \<lparr>ID = ''R1'', Price = 500, Title = ''Spring Raffle''\<rparr> \<and>
   Amount (intent_params \<lparr>ID = ''R1'', Price = 500, Title = ''Spring Raffle''\<rparr>
     (example_request [1, 2, 3]) None) = 150000"
proof -
  let ?p = "intent_params \<lparr>ID = ''R1'', Price = 500, Title = ''Spring Raffle''\<rparr>
     (example_request [1, 2, 3]) None"
  have "?p \<in> set (intents (calls (CreatePaymentIntent (example_world plain_insert) []
     (Some (example_request [1, 2, 3])))))"
    by (simp add: example_create)
  from amount_is_price_times_count_times_100 [OF disjI1, OF this]
  show ?thesis
    by (simp add: getRifa_example example_request_def elems_def)
qed

theorem amount_500_times_3_counterexample:
  "map Amount (intents (calls (CreatePaymentIntent (example_world plain_insert) []
      (Some (example_request [1, 2, 3]))))) = [150000] \<and>
   map Amount (intents (calls (CreatePaymentIntent_v2 (example_world plain_insert) []
      (Some (example_request [1, 2, 3]))))) = [150000] \<and>
   (150000 :: 64 word) \<noteq> 500 * 3"
  unfolding example_create example_create_v2
  by (simp add: intent_params_def example_request_def elems_def)

section \<open>Unverified requests\<close>

lemma example_bad_signature:
  "ConstructEvent (example_world ins) ''[4,9]'' ''forged''
     (STRIPE_WEBHOOK_SECRET (example_world ins)) = None"
  by (simp add: example_world_def example_ConstructEvent_def)

lemma example_good_signature:
  "ConstructEvent (example_world ins) payload (''k'' @ payload)
     (STRIPE_WEBHOOK_SECRET (example_world ins))
   = Some \<lparr>Type = ''payment_intent.succeeded'', Raw = payload\<rparr>"
  by (simp add: example_world_def example_ConstructEvent_def)

text \<open>
  C6. A webhook request that \<^verbatim>\<open>webhook.ConstructEvent\<close> rejects is answered with 400 by both
  variants of the handler, which then make no request to the store (the rows are as
  before) and hand no mail to the notifier.
\<close>

theorem unverified_request_is_dropped:
  "ConstructEvent w payload signature (STRIPE_WEBHOOK_SECRET w) = None \<Longrightarrow>
   status_of (HandleStripeWebhook w rows payload signature) = 400 \<and>
   calls (HandleStripeWebhook w rows payload signature) = [] \<and>
   spawned (HandleStripeWebhook w rows payload signature) = [] \<and>
   tikect (HandleStripeWebhook w rows payload signature) = rows \<and>
   status_of (HandleStripeWebhook_v2 w rows payload signature) = 400 \<and>
   calls (HandleStripeWebhook_v2 w rows payload signature) = [] \<and>
   spawned (HandleStripeWebhook_v2 w rows payload signature) = [] \<and>
   tikect (HandleStripeWebhook_v2 w rows payload signature) = rows"
  by (simp add: HandleStripeWebhook_def HandleStripeWebhook_v2_def quiet_def status_of_def)

theorem unverified_request_is_dropped_witness:
  "status_of (HandleStripeWebhook (example_world plain_insert) [] ''[4,9]'' ''forged'') = 400 \<and>
   calls (HandleStripeWebhook (example_world plain_insert) [] ''[4,9]'' ''forged'') = [] \<and>
   spawned (HandleStripeWebhook (example_world plain_insert) [] ''[4,9]'' ''forged'') = [] \<and>
   tikect (HandleStripeWebhook (example_world plain_insert) [] ''[4,9]'' ''forged'') = [] \<and>
   status_of (HandleStripeWebhook_v2 (example_world plain_insert) [] ''[4,9]'' ''forged'') = 400 \<and>
   calls (HandleStripeWebhook_v2 (example_world plain_insert) [] ''[4,9]'' ''forged'') = [] \<and>
   spawned (HandleStripeWebhook_v2 (example_world plain_insert) [] ''[4,9]'' ''forged'') = [] \<and>
   tikect (HandleStripeWebhook_v2 (example_world plain_insert) [] ''[4,9]'' ''forged'') = []"
  by (rule unverified_request_is_dropped [OF example_bad_signature])

section \<open>The notification\<close>

lemma webhook_without_mail:
  "(HandleStripeWebhook (w\<lparr>Emails_Send := f\<rparr>) rows payload signature)\<lparr>spawned_logs := []\<rparr>
   = (HandleStripeWebhook w rows payload signature)\<lparr>spawned_logs := []\<rparr>"
  by (simp add: HandleStripeWebhook_def registrarTickets_def quiet_def Let_def
           split: option.splits prod.splits reply.splits)

lemma webhook_v2_without_mail:
  "(HandleStripeWebhook_v2 (w\<lparr>Emails_Send := f\<rparr>) rows payload signature)\<lparr>spawned_logs := []\<rparr>
   = (HandleStripeWebhook_v2 w rows payload signature)\<lparr>spawned_logs := []\<rparr>"
  by (simp add: HandleStripeWebhook_v2_def registrarTickets_v2_def quiet_def Let_def
           split: option.splits prod.splits reply.splits)

lemma mail_only_after_commit:
  "spawned (HandleStripeWebhook w rows payload signature) \<noteq> [] \<Longrightarrow>
   status_of (HandleStripeWebhook w rows payload signature) = 200"
  by (auto simp: HandleStripeWebhook_def quiet_def Let_def status_of_def
           split: option.splits prod.splits if_splits)

lemma mail_only_after_commit_v2:
  "spawned (HandleStripeWebhook_v2 w rows payload signature) \<noteq> [] \<Longrightarrow>
   status_of (HandleStripeWebhook_v2 w rows payload signature) = 200"
  by (auto simp: HandleStripeWebhook_v2_def quiet_def Let_def status_of_def
           split: option.splits prod.splits if_splits)

section \<open>After the signature check\<close>

lemma commit_v2_fst: "fst (commit_v2 w rows ev) = None \<longleftrightarrow> fst (commit w rows ev) = None"
  by (simp add: commit_def commit_v2_def registrarTickets_def registrarTickets_v2_def
           split: prod.splits reply.splits)

lemma commit_v2_snd: "snd (commit_v2 w rows ev) = snd (commit w rows ev)"
  by (simp add: commit_def commit_v2_def registrarTickets_def registrarTickets_v2_def
           split: prod.splits reply.splits)

lemma commit_post: "snd (commit w rows ev) = snd (post_tikect w rows (batch_of w ev))"
  by (simp add: commit_def batch_of_def registrarTickets_def split: prod.splits reply.splits)

lemma commit_ok_iff:
  "fst (commit w rows ev) = None \<longleftrightarrow>
   (\<exists>code b. fst (post_tikect w rows (batch_of w ev)) = Reply code b \<and> code < 400)"
  by (auto simp: commit_def batch_of_def registrarTickets_def split: prod.splits reply.splits)

lemma webhook_committed:
  "verified w payload signature ev \<Longrightarrow> fst (commit w rows ev) = None \<Longrightarrow>
   written (HandleStripeWebhook w rows payload signature) = Some 200 \<and>
   calls (HandleStripeWebhook w rows payload signature) = [PostTikect (batch_of w ev)] \<and>
   tikect (HandleStripeWebhook w rows payload signature) = snd (commit w rows ev)"
  by (auto simp: verified_def HandleStripeWebhook_def commit_def batch_of_def numeros_of_def
        quiet_def Let_def split: prod.splits option.splits)

lemma webhook_v2_committed:
  "verified w payload signature ev \<Longrightarrow> fst (commit w rows ev) = None \<Longrightarrow>
   written (HandleStripeWebhook_v2 w rows payload signature) = Some 200 \<and>
   calls (HandleStripeWebhook_v2 w rows payload signature) = [PostTikect (batch_of w ev)] \<and>
   tikect (HandleStripeWebhook_v2 w rows payload signature) = snd (commit w rows ev)"
  using commit_v2_fst [of w rows ev] commit_v2_snd [of w rows ev]
  by (auto simp: verified_def HandleStripeWebhook_v2_def commit_v2_def batch_of_def numeros_of_def
        quiet_def Let_def split: prod.splits option.splits)

lemma webhook_commit_failed:
  "verified w payload signature ev \<Longrightarrow> fst (commit w rows ev) = Some e \<Longrightarrow>
   written (HandleStripeWebhook w rows payload signature) = None \<and>
   calls (HandleStripeWebhook w rows payload signature) = [PostTikect (batch_of w ev)] \<and>
   spawned (HandleStripeWebhook w rows payload signature) = [] \<and>
   tikect (HandleStripeWebhook w rows payload signature) = snd (commit w rows ev)"
  by (auto simp: verified_def HandleStripeWebhook_def commit_def batch_of_def numeros_of_def
        quiet_def Let_def split: prod.splits option.splits)

lemma webhook_v2_commit_failed:
  "verified w payload signature ev \<Longrightarrow> fst (commit w rows ev) = Some e \<Longrightarrow>
   written (HandleStripeWebhook_v2 w rows payload signature) = Some 500 \<and>
   calls (HandleStripeWebhook_v2 w rows payload signature) = [PostTikect (batch_of w ev)] \<and>
   spawned (HandleStripeWebhook_v2 w rows payload signature) = [] \<and>
   tikect (HandleStripeWebhook_v2 w rows payload signature) = snd (commit w rows ev)"
  using commit_v2_fst [of w rows ev] commit_v2_snd [of w rows ev]
  by (auto simp: verified_def HandleStripeWebhook_v2_def commit_v2_def batch_of_def numeros_of_def
        quiet_def Let_def split: prod.splits option.splits)

lemma verified_mail [simp]:
  "verified (w\<lparr>Emails_Send := f\<rparr>) payload signature ev = verified w payload signature ev"
  by (simp add: verified_def)

lemma commit_mail [simp]: "commit (w\<lparr>Emails_Send := f\<rparr>) rows ev = commit w rows ev"
  by (simp add: commit_def numeros_of_def registrarTickets_def)

lemma verified_example:
  "length payload \<le> 65536 \<Longrightarrow>
   verified (example_world ins) payload (''k'' @ payload)
     \<lparr>Type = ''payment_intent.succeeded'', Raw = payload\<rparr>"
  using example_good_signature [of ins payload]
  by (simp add: verified_def MaxBodyBytes_def) (simp add: example_world_def)

lemma batch_example:
  "batch_of (example_world ins) \<lparr>Type = t, Raw = payload\<rparr>
   = payload_of ''R1'' (snd (Unmarshal_ints payload)) ''u1''"
  by (simp add: batch_of_def numeros_of_def example_world_def lookup_def)

lemma commit_example_plain:
  "commit (example_world plain_insert) rows ev = (None, rows @ batch_of (example_world plain_insert) ev)"
  by (simp add: commit_def batch_of_def registrarTickets_def)
     (simp add: example_world_def plain_insert_def)

lemma commit_example_down:
  "commit (example_world down_insert) rows ev = (Some ErrorRegistro, rows)"
  by (simp add: commit_def registrarTickets_def)
     (simp add: example_world_def down_insert_def)



section \<open>A store failure after the signature check\<close>

text \<open>
  C5 at a failing input: a verified "payment succeeded" event arrives while the store
  answers 503. \<^verbatim>\<open>main.go\<close> logs the error and returns without writing a status, which the
  provider receives as 200; the second variant writes 500.
\<close>

theorem store_failure_is_acknowledged_by_main:
  "written (HandleStripeWebhook (example_world down_insert) [] ''[4,9]'' ''k[4,9]'') = None \<and>
   status_of (HandleStripeWebhook (example_world down_insert) [] ''[4,9]'' ''k[4,9]'') = 200 \<and>
   tikect (HandleStripeWebhook (example_world down_insert) [] ''[4,9]'' ''k[4,9]'') = [] \<and>
   status_of (HandleStripeWebhook_v2 (example_world down_insert) [] ''[4,9]'' ''k[4,9]'') = 500"
proof -
  have v: "verified (example_world down_insert) ''[4,9]'' ''k[4,9]''
     \<lparr>Type = ''payment_intent.succeeded'', Raw = ''[4,9]''\<rparr>"
    using verified_example [of "''[4,9]''" down_insert] by simp
  have c: "fst (commit (example_world down_insert) []
     \<lparr>Type = ''payment_intent.succeeded'', Raw = ''[4,9]''\<rparr>) = Some ErrorRegistro"
    by (simp add: commit_example_down)
  show ?thesis
    using webhook_commit_failed [OF v c] webhook_v2_commit_failed [OF v c]
    by (simp add: status_of_def commit_example_down)
qed

section \<open>The availability check\<close>

lemma validarNumeros_overlap:
  "get_tikect w = unique_select \<Longrightarrow> t \<in> set rows \<Longrightarrow> rifa_id t = ident \<Longrightarrow>
   number t \<in> set (elems numeros) \<Longrightarrow> validarNumeros w rows ident numeros = Failed Taken"
  by (auto simp: validarNumeros_def unique_select_def filter_empty_conv)

lemma main_refuses_overlap:
  "get_tikect w = unique_select \<Longrightarrow> getRifa w (RifaID req) = Inr rifa \<Longrightarrow>
   t \<in> set rows \<Longrightarrow> rifa_id t = RifaID req \<Longrightarrow> number t \<in> set (elems (Numeros req)) \<Longrightarrow>
   status_of (CreatePaymentIntent w rows (Some req)) = 409 \<and>
   intents (calls (CreatePaymentIntent w rows (Some req))) = []"
  by (simp add: CreatePaymentIntent_def validarNumeros_overlap quiet_def status_of_def)

text \<open>
  C4 at a failing input: ticket (R1, 4) exists and a request asks for the numbers 4 and 9
  of R1. The second variant of the handler never asks the store about the numbers: it
  creates the intent and answers 200 with the client secret. \<^verbatim>\<open>main.go\<close> answers 409 and
  creates nothing.
\<close>

theorem overlap_is_not_checked_by_second_variant:
  "status_of (CreatePaymentIntent_v2 (example_world plain_insert)
      [\<lparr>rifa_id = ''R1'', number = 4, profile_id = ''u0''\<rparr>] (Some (example_request [4, 9]))) = 200 \<and>
   sent (CreatePaymentIntent_v2 (example_world plain_insert)
      [\<lparr>rifa_id = ''R1'', number = 4, profile_id = ''u0''\<rparr>] (Some (example_request [4, 9])))
     = ClientSecret ''cs_1'' \<and>
   map Amount (intents (calls (CreatePaymentIntent_v2 (example_world plain_insert)
      [\<lparr>rifa_id = ''R1'', number = 4, profile_id = ''u0''\<rparr>] (Some (example_request [4, 9])))))
     = [100000] \<and>
   status_of (CreatePaymentIntent (example_world plain_insert)
      [\<lparr>rifa_id = ''R1'', number = 4, profile_id = ''u0''\<rparr>] (Some (example_request [4, 9]))) = 409 \<and>
   intents (calls (CreatePaymentIntent (example_world plain_insert)
      [\<lparr>rifa_id = ''R1'', number = 4, profile_id = ''u0''\<rparr>] (Some (example_request [4, 9])))) = []"
proof -
  let ?rows = "[\<lparr>rifa_id = ''R1'', number = 4, profile_id = ''u0''\<rparr>]"
  let ?w = "example_world plain_insert"
  have new: "paymentintent_New ?w q = Some ''cs_1''" for q
    by (simp add: example_world_def)
  have v2: "status_of (CreatePaymentIntent_v2 ?w ?rows (Some (example_request [4, 9]))) = 200 \<and>
     sent (CreatePaymentIntent_v2 ?w ?rows (Some (example_request [4, 9]))) = ClientSecret ''cs_1''"
    by (simp add: CreatePaymentIntent_v2_def getRifa_example issue_def new quiet_def status_of_def
        example_request_def)
  have amount: "map Amount (intents (calls (CreatePaymentIntent_v2 ?w ?rows
      (Some (example_request [4, 9]))))) = [100000]"
    unfolding example_create_v2 by (simp add: intent_params_def example_request_def elems_def)
  have sel: "get_tikect ?w = unique_select"
    by (simp add: example_world_def)
  have main: "status_of (CreatePaymentIntent ?w ?rows (Some (example_request [4, 9]))) = 409 \<and>
     intents (calls (CreatePaymentIntent ?w ?rows (Some (example_request [4, 9])))) = []"
    by (rule main_refuses_overlap [OF sel, where t = "\<lparr>rifa_id = ''R1'', number = 4, profile_id = ''u0''\<rparr>"])
       (simp_all add: getRifa_example example_request_def elems_def)
  from v2 amount main show ?thesis by simp
qed

section \<open>Numbers that occur twice\<close>

lemma sum_same: "sum_list (map (\<lambda>n. c) xs) = (c :: 64 word) * of_nat (length xs)"
  by (induction xs) (simp_all add: algebra_simps)

lemma amount_sum:
  "Amount (intent_params rifa req a) = sum_list (map (\<lambda>n. Price rifa * 100) (elems (Numeros req)))"
  by (simp add: intent_params_def sum_same algebra_simps)

lemma webhook_posts_batch:
  "verified w payload signature ev \<Longrightarrow>
   calls (HandleStripeWebhook w rows payload signature) = [PostTikect (batch_of w ev)] \<and>
   calls (HandleStripeWebhook_v2 w rows payload signature) = [PostTikect (batch_of w ev)]"
  using webhook_committed [of w payload signature ev rows]
        webhook_v2_committed [of w payload signature ev rows]
        webhook_commit_failed [of w payload signature ev rows]
        webhook_v2_commit_failed [of w payload signature ev rows]
  by (cases "fst (commit w rows ev)") auto


lemma Unmarshal_7_7: "Unmarshal_ints ''[7,7]'' = (False, Some [7, 7])"
  by code_simp



section \<open>Delivering an event again\<close>

lemma unique_insert_again:
  "snd (unique_insert (snd (unique_insert rows b)) b) = snd (unique_insert rows b)"
  by (cases b) (auto simp: unique_insert_def)

lemma unique_insert_refuses_again:
  "b \<noteq> [] \<Longrightarrow> fst (unique_insert rows b) = Reply code x \<Longrightarrow> code < 400 \<Longrightarrow>
   unique_insert (snd (unique_insert rows b)) b
     = (Reply 409 ''duplicate key value violates unique constraint'', rows @ b)"
  by (cases b) (auto simp: unique_insert_def split: if_splits)

lemma unique_insert_distinct:
  "distinct (map pair_of rows) \<Longrightarrow> distinct (map pair_of (snd (unique_insert rows b)))"
  by (auto simp: unique_insert_def)

lemma tikect_webhook:
  "verified w payload signature ev \<Longrightarrow>
   tikect (HandleStripeWebhook w rows payload signature) = snd (post_tikect w rows (batch_of w ev)) \<and>
   tikect (HandleStripeWebhook_v2 w rows payload signature) = snd (post_tikect w rows (batch_of w ev))"
  using webhook_committed [of w payload signature ev rows]
        webhook_v2_committed [of w payload signature ev rows]
        webhook_commit_failed [of w payload signature ev rows]
        webhook_v2_commit_failed [of w payload signature ev rows]
  by (cases "fst (commit w rows ev)") (auto simp: commit_post)

lemma status_v2_iff:
  "verified w payload signature ev \<Longrightarrow>
   status_of (HandleStripeWebhook_v2 w rows payload signature)
     = (if fst (commit w rows ev) = None then 200 else 500)"
  using webhook_v2_committed [of w payload signature ev rows]
        webhook_v2_commit_failed [of w payload signature ev rows]
  by (cases "fst (commit w rows ev)") (auto simp: status_of_def)


lemma Unmarshal_4_9: "Unmarshal_ints ''[4,9]'' = (False, Some [4, 9])"
  by code_simp

lemma post_example [simp]: "post_tikect (example_world ins) = ins"
  by (simp add: example_world_def)

lemma batch_4_9:
  "batch_of (example_world ins) \<lparr>Type = t, Raw = ''[4,9]''\<rparr>
   = [\<lparr>rifa_id = ''R1'', number = 4, profile_id = ''u1''\<rparr>,
      \<lparr>rifa_id = ''R1'', number = 9, profile_id = ''u1''\<rparr>]"
  by (simp add: batch_example Unmarshal_4_9 payload_of_def elems_def)

lemma unique_first_4_9:
  "unique_insert [] [\<lparr>rifa_id = ''R1'', number = 4, profile_id = ''u1''\<rparr>,
      \<lparr>rifa_id = ''R1'', number = 9, profile_id = ''u1''\<rparr>]
   = (Reply 201 [], [\<lparr>rifa_id = ''R1'', number = 4, profile_id = ''u1''\<rparr>,
      \<lparr>rifa_id = ''R1'', number = 9, profile_id = ''u1''\<rparr>])"
  by (simp add: unique_insert_def pair_of_def)

lemma unique_second_4_9:
  "unique_insert [\<lparr>rifa_id = ''R1'', number = 4, profile_id = ''u1''\<rparr>,
      \<lparr>rifa_id = ''R1'', number = 9, profile_id = ''u1''\<rparr>]
     [\<lparr>rifa_id = ''R1'', number = 4, profile_id = ''u1''\<rparr>,
      \<lparr>rifa_id = ''R1'', number = 9, profile_id = ''u1''\<rparr>]
   = (Reply 409 ''duplicate key value violates unique constraint'',
      [\<lparr>rifa_id = ''R1'', number = 4, profile_id = ''u1''\<rparr>,
       \<lparr>rifa_id = ''R1'', number = 9, profile_id = ''u1''\<rparr>])"
  by (simp add: unique_insert_def pair_of_def)

lemma verified_4_9:
  "verified (example_world ins) ''[4,9]'' ''k[4,9]''
     \<lparr>Type = ''payment_intent.succeeded'', Raw = ''[4,9]''\<rparr>"
  using verified_example [of "''[4,9]''" ins] by simp

lemma first_delivery_v2:
  "status_of (HandleStripeWebhook_v2 (example_world unique_insert) [] ''[4,9]'' ''k[4,9]'') = 200 \<and>
   tikect (HandleStripeWebhook_v2 (example_world unique_insert) [] ''[4,9]'' ''k[4,9]'')
     = [\<lparr>rifa_id = ''R1'', number = 4, profile_id = ''u1''\<rparr>,
        \<lparr>rifa_id = ''R1'', number = 9, profile_id = ''u1''\<rparr>]"
  using tikect_webhook [OF verified_4_9, of unique_insert "[]"]
  by (simp add: status_v2_iff [OF verified_4_9] commit_ok_iff batch_4_9 unique_first_4_9)



section \<open>Two buyers, one number\<close>

lemma registrarTickets_snd:
  "snd (registrarTickets w rows r ns u) = snd (post_tikect w rows (payload_of r ns u))"
  "snd (registrarTickets_v2 w rows r ns u) = snd (post_tikect w rows (payload_of r ns u))"
  by (simp_all add: registrarTickets_def registrarTickets_v2_def split: prod.splits reply.splits)

lemma tikect_any_request:
  "tikect (HandleStripeWebhook w rows payload signature) = rows \<or>
   (\<exists>b. tikect (HandleStripeWebhook w rows payload signature) = snd (post_tikect w rows b))"
  using registrarTickets_snd(1) [of w rows]
  by (auto simp: HandleStripeWebhook_def quiet_def Let_def split: option.splits prod.splits)
     (metis snd_conv)+

lemma tikect_any_request_v2:
  "tikect (HandleStripeWebhook_v2 w rows payload signature) = rows \<or>
   (\<exists>b. tikect (HandleStripeWebhook_v2 w rows payload signature) = snd (post_tikect w rows b))"
  using registrarTickets_snd(2) [of w rows]
  by (auto simp: HandleStripeWebhook_v2_def quiet_def Let_def split: option.splits prod.splits)
     (metis snd_conv)+

lemma deliver_distinct:
  "post_tikect w = unique_insert \<Longrightarrow> distinct (map pair_of rows) \<Longrightarrow>
   distinct (map pair_of (deliver w rows d))"
proof -
  assume u: "post_tikect w = unique_insert" and d: "distinct (map pair_of rows)"
  obtain second payload signature where dd: "d = (second, payload, signature)"
    by (cases d) auto
  have "deliver w rows d = rows \<or> (\<exists>b. deliver w rows d = snd (unique_insert rows b))"
    using tikect_any_request [of w rows payload signature]
          tikect_any_request_v2 [of w rows payload signature] u
    by (simp add: deliver_def dd)
  then show ?thesis
    using d unique_insert_distinct [OF d] by auto
qed

lemma deliveries_distinct:
  "post_tikect w = unique_insert \<Longrightarrow> distinct (map pair_of rows) \<Longrightarrow>
   distinct (map pair_of (foldl (deliver w) rows ds))"
  by (induction ds arbitrary: rows) (simp_all add: deliver_distinct)

text \<open>
  C3 (amended). With a store that enforces uniqueness on (item, number), a table in which
  every pair occurs at most once stays so through any run of webhook deliveries, in
  whatever order their inserts reach the store. A commit that the store refuses reports a
  failure that does not name a number: \<^verbatim>\<open>main.go\<close> returns the fixed error "error registro",
  the second variant returns the status code and the body of the store's answer.
\<close>

theorem one_ticket_per_number_with_unique_store:
  "post_tikect w = unique_insert \<Longrightarrow> distinct (map pair_of rows) \<Longrightarrow>
   distinct (map pair_of (foldl (deliver w) rows ds)) \<and>
   (fst (post_tikect w held (payload_of r ns u)) = Reply code b \<and> 400 \<le> code \<longrightarrow>
    fst (registrarTickets w held r ns u) = Some ErrorRegistro \<and>
    fst (registrarTickets_v2 w held r ns u) = Some (StatusError code b))"
  by (auto simp: deliveries_distinct registrarTickets_def registrarTickets_v2_def
           split: prod.splits)

lemma Unmarshal_7: "Unmarshal_ints ''[7]'' = (False, Some [7])"
  by code_simp

lemma post_contest [simp]: "post_tikect (contest_world ins) = ins"
  by (simp add: contest_world_def)

lemma verified_contest:
  "length buyer \<le> 65536 \<Longrightarrow>
   verified (contest_world ins) buyer (''k'' @ buyer)
     \<lparr>Type = ''payment_intent.succeeded'', Raw = buyer\<rparr>"
  by (simp add: verified_def MaxBodyBytes_def contest_world_def example_world_def
      example_ConstructEvent_def)

lemma batch_contest:
  "batch_of (contest_world ins) \<lparr>Type = t, Raw = buyer\<rparr>
   = [\<lparr>rifa_id = ''X'', number = 7, profile_id = buyer\<rparr>]"
  by (simp add: batch_of_def numeros_of_def contest_world_def lookup_def Unmarshal_7
      payload_of_def elems_def)

lemma contest_run:
  "foldl (deliver (contest_world unique_insert)) []
     [(False, ''u1'', ''ku1''), (True, ''u2'', ''ku2'')]
   = [\<lparr>rifa_id = ''X'', number = 7, profile_id = ''u1''\<rparr>]"
proof -
  have v1: "verified (contest_world unique_insert) ''u1'' ''ku1''
     \<lparr>Type = ''payment_intent.succeeded'', Raw = ''u1''\<rparr>"
    using verified_contest [of "''u1''" unique_insert] by simp
  have v2: "verified (contest_world unique_insert) ''u2'' ''ku2''
     \<lparr>Type = ''payment_intent.succeeded'', Raw = ''u2''\<rparr>"
    using verified_contest [of "''u2''" unique_insert] by simp
  have first: "deliver (contest_world unique_insert) [] (False, ''u1'', ''ku1'')
     = [\<lparr>rifa_id = ''X'', number = 7, profile_id = ''u1''\<rparr>]"
    using tikect_webhook [OF v1, of "[]"]
    by (simp add: deliver_def batch_contest unique_insert_def)
  have second: "deliver (contest_world unique_insert)
       [\<lparr>rifa_id = ''X'', number = 7, profile_id = ''u1''\<rparr>] (True, ''u2'', ''ku2'')
     = [\<lparr>rifa_id = ''X'', number = 7, profile_id = ''u1''\<rparr>]"
    using tikect_webhook [OF v2, of "[\<lparr>rifa_id = ''X'', number = 7, profile_id = ''u1''\<rparr>]"]
    by (simp add: deliver_def batch_contest unique_insert_def pair_of_def)
  show ?thesis
    by (simp add: first second)
qed

theorem one_ticket_per_number_with_unique_store_witness:
  "post_tikect (contest_world unique_insert) = unique_insert \<and>
   distinct (map pair_of ([] :: ticket list)) \<and>
   distinct (map pair_of (foldl (deliver (contest_world unique_insert)) []
     [(False, ''u1'', ''ku1''), (True, ''u2'', ''ku2'')])) \<and>
   foldl (deliver (contest_world unique_insert)) []
     [(False, ''u1'', ''ku1''), (True, ''u2'', ''ku2'')]
     = [\<lparr>rifa_id = ''X'', number = 7, profile_id = ''u1''\<rparr>] \<and>
   fst (registrarTickets (contest_world unique_insert)
     [\<lparr>rifa_id = ''X'', number = 7, profile_id = ''u1''\<rparr>] ''X'' (Some [7]) ''u2'')
     = Some ErrorRegistro \<and>
   fst (registrarTickets_v2 (contest_world unique_insert)
     [\<lparr>rifa_id = ''X'', number = 7, profile_id = ''u1''\<rparr>] ''X'' (Some [7]) ''u2'')
     = Some (StatusError 409 ''duplicate key value violates unique constraint'')"
proof -
  have r: "fst (post_tikect (contest_world unique_insert)
       [\<lparr>rifa_id = ''X'', number = 7, profile_id = ''u1''\<rparr>] (payload_of ''X'' (Some [7]) ''u2''))
     = Reply 409 ''duplicate key value violates unique constraint'' \<and> (400 :: nat) \<le> 409"
    by (simp add: unique_insert_def payload_of_def elems_def pair_of_def)
  note T = one_ticket_per_number_with_unique_store
    [OF post_contest [of unique_insert], where rows = "[]"
      and ds = "[(False, ''u1'', ''ku1''), (True, ''u2'', ''ku2'')]"
      and held = "[\<lparr>rifa_id = ''X'', number = 7, profile_id = ''u1''\<rparr>]"
      and r = "''X''" and ns = "Some [7]" and u = "''u2''"
      and b = "''duplicate key value violates unique constraint''" and code = 409]
  from T [unfolded contest_run] r show ?thesis
    unfolding contest_run by simp
qed

theorem refused_commit_is_a_blanket_error_counterexample:
  "fst (registrarTickets (contest_world unique_insert)
     [\<lparr>rifa_id = ''X'', number = 7, profile_id = ''u1''\<rparr>] ''X'' (Some [7]) ''u2'')
     = Some ErrorRegistro \<and>
   fst (registrarTickets (contest_world unique_insert)
     [\<lparr>rifa_id = ''X'', number = 7, profile_id = ''u1''\<rparr>] ''X'' (Some [8, 7]) ''u2'')
     = Some ErrorRegistro \<and>
   fst (registrarTickets (contest_world down_insert)
     [\<lparr>rifa_id = ''X'', number = 7, profile_id = ''u1''\<rparr>] ''X'' (Some [8]) ''u2'')
     = Some ErrorRegistro \<and>
   written (HandleStripeWebhook (contest_world unique_insert)
     [\<lparr>rifa_id = ''X'', number = 7, profile_id = ''u1''\<rparr>] ''u2'' ''ku2'') = None \<and>
   logs (HandleStripeWebhook (contest_world unique_insert)
     [\<lparr>rifa_id = ''X'', number = 7, profile_id = ''u1''\<rparr>] ''u2'' ''ku2'')
     = [LogPago ''u2@x.com'', LogDB ''X'']"
proof -
  have e: "fst (registrarTickets (contest_world unique_insert)
     [\<lparr>rifa_id = ''X'', number = 7, profile_id = ''u1''\<rparr>] ''X'' (Some [7]) ''u2'')
     = Some ErrorRegistro"
   "fst (registrarTickets (contest_world unique_insert)
     [\<lparr>rifa_id = ''X'', number = 7, profile_id = ''u1''\<rparr>] ''X'' (Some [8, 7]) ''u2'')
     = Some ErrorRegistro"
   "fst (registrarTickets (contest_world down_insert)
     [\<lparr>rifa_id = ''X'', number = 7, profile_id = ''u1''\<rparr>] ''X'' (Some [8]) ''u2'')
     = Some ErrorRegistro"
    by (simp_all add: registrarTickets_def unique_insert_def down_insert_def payload_of_def
        elems_def pair_of_def)
  have h: "written (HandleStripeWebhook (contest_world unique_insert)
     [\<lparr>rifa_id = ''X'', number = 7, profile_id = ''u1''\<rparr>] ''u2'' ''ku2'') = None \<and>
   logs (HandleStripeWebhook (contest_world unique_insert)
     [\<lparr>rifa_id = ''X'', number = 7, profile_id = ''u1''\<rparr>] ''u2'' ''ku2'')
     = [LogPago ''u2@x.com'', LogDB ''X'']"
    by (simp add: HandleStripeWebhook_def MaxBodyBytes_def contest_world_def example_world_def
        example_ConstructEvent_def lookup_def Unmarshal_7 registrarTickets_def unique_insert_def
        payload_of_def elems_def pair_of_def quiet_def Let_def)
  from e h show ?thesis by simp
qed

section \<open>Numbers that do not decode\<close>

lemma checkValid_empty: "\<not> checkValid []"
  by (simp add: checkValid_def)

lemma numeros_undecodable:
  "snd (Unmarshal_pi w (Raw ev)) ''numeros'' = None \<or>
   \<not> checkValid (lookup (snd (Unmarshal_pi w (Raw ev))) ''numeros'') \<Longrightarrow>
   Unmarshal_ints (lookup (snd (Unmarshal_pi w (Raw ev))) ''numeros'') = (True, None)"
  by (auto simp: Unmarshal_ints_def lookup_def checkValid_empty)

lemma batch_undecodable:
  "snd (Unmarshal_pi w (Raw ev)) ''numeros'' = None \<or>
   \<not> checkValid (lookup (snd (Unmarshal_pi w (Raw ev))) ''numeros'') \<Longrightarrow>
   numeros_of w ev = None \<and> batch_of w ev = []"
  by (simp add: numeros_undecodable numeros_of_def batch_of_def payload_of_def elems_def)

text \<open>
  C9 (amended). Take a verified "payment succeeded" event whose \<^verbatim>\<open>numeros\<close> field is
  absent or is not valid JSON. \<^verbatim>\<open>json.Unmarshal\<close> returns an error which both variants
  drop; the list of numbers stays nil, and the handler posts a batch of zero rows. When
  the store accepts that insert, the event is acknowledged with 200.
\<close>

theorem undecodable_numbers_are_an_empty_commit:
  "verified w payload signature ev \<Longrightarrow>
   snd (Unmarshal_pi w (Raw ev)) ''numeros'' = None \<or>
     \<not> checkValid (lookup (snd (Unmarshal_pi w (Raw ev))) ''numeros'') \<Longrightarrow>
   fst (post_tikect w rows []) = Reply code b \<Longrightarrow> code < 400 \<Longrightarrow>
   fst (Unmarshal_ints (lookup (snd (Unmarshal_pi w (Raw ev))) ''numeros'')) \<and>
   numeros_of w ev = None \<and>
   calls (HandleStripeWebhook w rows payload signature) = [PostTikect []] \<and>
   status_of (HandleStripeWebhook w rows payload signature) = 200 \<and>
   calls (HandleStripeWebhook_v2 w rows payload signature) = [PostTikect []] \<and>
   status_of (HandleStripeWebhook_v2 w rows payload signature) = 200"
proof -
  assume v: "verified w payload signature ev"
    and n: "snd (Unmarshal_pi w (Raw ev)) ''numeros'' = None \<or>
       \<not> checkValid (lookup (snd (Unmarshal_pi w (Raw ev))) ''numeros'')"
    and r: "fst (post_tikect w rows []) = Reply code b" and c: "code < 400"
  from batch_undecodable [OF n] have e: "numeros_of w ev = None" "batch_of w ev = []"
    by simp_all
  from r c e have ok: "fst (commit w rows ev) = None"
    by (auto simp: commit_ok_iff)
  from webhook_committed [OF v ok] webhook_v2_committed [OF v ok] e numeros_undecodable [OF n]
  show ?thesis
    by (simp add: status_of_def)
qed

lemma checkValid_oops: "\<not> checkValid ''oops''"
  by code_simp

lemma numeros_example:
  "lookup (snd (Unmarshal_pi (example_world ins) raw)) ''numeros'' = raw"
  by (simp add: example_world_def lookup_def)

theorem undecodable_numbers_are_an_empty_commit_witness:
  "verified (example_world plain_insert) ''oops'' ''koops''
     \<lparr>Type = ''payment_intent.succeeded'', Raw = ''oops''\<rparr> \<and>
   \<not> checkValid ''oops'' \<and>
   fst (post_tikect (example_world plain_insert) [] []) = Reply 201 [] \<and>
   calls (HandleStripeWebhook (example_world plain_insert) [] ''oops'' ''koops'') = [PostTikect []] \<and>
   status_of (HandleStripeWebhook (example_world plain_insert) [] ''oops'' ''koops'') = 200 \<and>
   calls (HandleStripeWebhook_v2 (example_world plain_insert) [] ''oops'' ''koops'') = [PostTikect []] \<and>
   status_of (HandleStripeWebhook_v2 (example_world plain_insert) [] ''oops'' ''koops'') = 200"
proof -
  let ?ev = "\<lparr>Type = ''payment_intent.succeeded'', Raw = ''oops''\<rparr>"
  have v: "verified (example_world plain_insert) ''oops'' ''koops'' ?ev"
    using verified_example [of "''oops''" plain_insert] by simp
  have n: "snd (Unmarshal_pi (example_world plain_insert) (Raw ?ev)) ''numeros'' = None \<or>
     \<not> checkValid (lookup (snd (Unmarshal_pi (example_world plain_insert) (Raw ?ev))) ''numeros'')"
    by (simp add: numeros_example checkValid_oops)
  have r: "fst (post_tikect (example_world plain_insert) [] []) = Reply 201 []"
    by (simp add: plain_insert_def)
  from undecodable_numbers_are_an_empty_commit [OF v n r] v r
  show ?thesis
    by (simp add: checkValid_oops)
qed

theorem undecodable_numbers_store_down_counterexample:
  "\<not> checkValid ''oops'' \<and>
   snd (Unmarshal_ints ''oops'') = None \<and>
   calls (HandleStripeWebhook_v2 (example_world down_insert) [] ''oops'' ''koops'') = [PostTikect []] \<and>
   status_of (HandleStripeWebhook_v2 (example_world down_insert) [] ''oops'' ''koops'') = 500"
proof -
  let ?ev = "\<lparr>Type = ''payment_intent.succeeded'', Raw = ''oops''\<rparr>"
  have v: "verified (example_world down_insert) ''oops'' ''koops'' ?ev"
    using verified_example [of "''oops''" down_insert] by simp
  have u: "Unmarshal_ints ''oops'' = (True, None)"
    by (simp add: Unmarshal_ints_def checkValid_oops)
  have b: "batch_of (example_world down_insert) ?ev = []"
    by (simp add: batch_example u payload_of_def elems_def)
  have c: "fst (commit (example_world down_insert) [] ?ev) = Some ErrorRegistro"
    by (simp add: commit_example_down)
  from webhook_v2_commit_failed [OF v c] b u show ?thesis
    by (simp add: status_of_def checkValid_oops)
qed

end
